theory Spec2Isabelle
  imports Main "HOL-Library.Sublist"
begin

section \<open>Errors\<close>

text \<open>
  The error values the Go code builds or passes on. \<open>ErrNoSuchNetwork\<close>,
  \<open>ErrInvalidID\<close> and \<open>NetworkNameError\<close> are the string-based error types of
  libnetwork; \<open>RequestForbiddenError\<close> is \<open>errors.NewRequestForbiddenError\<close> applied to
  a \<open>fmt.Errorf\<close> message; \<open>Errorf\<close> is a plain \<open>fmt.Errorf\<close>; \<open>ExternalError\<close> is any
  other error produced by the network library or by the remote API; \<open>NilDereference\<close>
  is the run-time panic of a method call on a nil interface value.
\<close>

datatype error =
    ErrNoSuchNetwork string
  | ErrInvalidID string
  | NetworkNameError string
  | RequestForbiddenError string
  | Errorf string
  | ExternalError string
  | NilDereference

section \<open>api/client/idresolver: ID to name resolution with a cache\<close>

text \<open>
  \<open>IDResolver\<close> as in the source: the API client, the \<open>noResolve\<close> flag and the cache
  (a Go \<open>map[string]string\<close>). The kind of object to resolve (the \<open>t interface{}\<close>
  argument) is the type parameter \<open>'k\<close>.

  Modelled from the spec: the remote query. The source of \<open>Resolve\<close> elides the
  statement that binds \<open>name\<close> between the cache lookup and the cache store; the spec
  (section 2, item 3 and section 7) describes it as a lookup of a human name for an
  opaque identifier at the remote manager whose errors are passed through unchanged.
  It is the field \<open>client\<close>: one remote query for a kind and an id, answering with a
  name or an error.
\<close>

record 'k IDResolver =
  client :: "'k \<Rightarrow> string \<Rightarrow> error + string"
  noResolve :: bool
  cache :: "string \<rightharpoonup> string"

definition New :: "('k \<Rightarrow> string \<Rightarrow> error + string) \<Rightarrow> bool \<Rightarrow> 'k IDResolver" where
  "New cl nr = \<lparr>client = cl, noResolve = nr, cache = Map.empty\<rparr>"

text \<open>
  \<open>Resolve r t ident\<close> returns the Go result (name or error), the resolver after the call
  (the cache is mutated in place in the source) and the remote queries the call issued,
  in order.
\<close>

definition Resolve ::
  "'k IDResolver \<Rightarrow> 'k \<Rightarrow> string \<Rightarrow> (error + string) \<times> 'k IDResolver \<times> ('k \<times> string) list" where
  "Resolve r t ident =
     (if noResolve r then (Inr ident, r, [])
      else (case cache r ident of
              Some name \<Rightarrow> (Inr name, r, [])
            | None \<Rightarrow>
                (case client r t ident of
                   Inl err \<Rightarrow> (Inl err, r, [(t, ident)])
                 | Inr name \<Rightarrow> (Inr name, r\<lparr>cache := (cache r)(ident \<mapsto> name)\<rparr>, [(t, ident)]))))"

section \<open>daemon: network lookup, creation and deletion\<close>

subsection \<open>The network library as the daemon sees it\<close>

text \<open>
  \<open>libnetwork.Network\<close> is an interface; the daemon code reads a network through its
  methods \<open>Name()\<close>, \<open>ID()\<close> and \<open>Type()\<close> and calls \<open>Delete()\<close>, whose answer
  (nil or an error) is the field \<open>Delete\<close>.
\<close>

record Network =
  Name :: string
  ID :: string
  Type :: string
  Delete :: "error option"

record IpamConf =
  PreferredPool :: string
  SubPool :: string
  Gateway :: string
  AuxAddresses :: "string \<rightharpoonup> string"

datatype NetworkOption =
    NetworkOptionIpam string string "IpamConf list" "IpamConf list" "string \<rightharpoonup> string"
  | NetworkOptionEnableIPv6 bool
  | NetworkOptionDriverOpts "string \<rightharpoonup> string"
  | NetworkOptionLabels "string \<rightharpoonup> string"
  | NetworkOptionInternalNetwork
  | NetworkOptionDynamic
  | NetworkOptionPersist bool

text \<open>
  \<open>libnetwork.NetworkController\<close>, also an interface, through the methods the daemon
  calls: \<open>NetworkByName\<close> and \<open>NewNetwork\<close> answer with a network or an error (the Go
  pair of which exactly one component is nil), \<open>ctlNetworks\<close> is the sequence of networks
  that \<open>WalkNetworks\<close> hands to its walker, and \<open>DefaultNetwork\<close>, \<open>DefaultDriver\<close>
  are the two values read from \<open>Config().Daemon\<close>.
\<close>

record NetworkController =
  NetworkByName :: "string \<Rightarrow> error + Network"
  ctlNetworks :: "Network list"
  DefaultNetwork :: string
  DefaultDriver :: string
  NewNetwork :: "string \<Rightarrow> string \<Rightarrow> string \<Rightarrow> NetworkOption list \<Rightarrow> error + Network"

text \<open>The walk stops as soon as the walker answers true.\<close>

fun WalkNetworks :: "Network list \<Rightarrow> (Network \<Rightarrow> 's \<Rightarrow> bool \<times> 's) \<Rightarrow> 's \<Rightarrow> 's" where
  "WalkNetworks [] walker s = s"
| "WalkNetworks (nw # rest) walker s =
     (case walker nw s of (stop, s') \<Rightarrow> if stop then s' else WalkNetworks rest walker s')"

text \<open>
  The daemon holds the controller in a field that is nil where networking is disabled.
\<close>

record Daemon =
  netController :: "NetworkController option"

text \<open>
  What a daemon function does besides returning: the calls it makes on the controller
  and on networks, and the events it logs, in order.
\<close>

datatype event =
    CallConfig
  | CallNetworkByName string
  | CallWalkNetworks
  | CallNewNetwork string string string "NetworkOption list"
  | CallDelete Network
  | LogNetworkEvent Network string

subsection \<open>Request and response types\<close>

record IPAMConfig =
  Subnet :: string
  IPRange :: string
  cfgGateway :: string
  AuxAddress :: "string \<rightharpoonup> string"

record IPAM =
  ipamDriver :: string
  ipamOptions :: "string \<rightharpoonup> string"
  Config :: "IPAMConfig list"

record NetworkCreate =
  CheckDuplicate :: bool
  Driver :: string
  EnableIPv6 :: bool
  IPAM :: IPAM
  Internal :: bool
  Options :: "string \<rightharpoonup> string"
  Labels :: "string \<rightharpoonup> string"

record NetworkCreateRequest = NetworkCreate +
  reqName :: string

record NetworkCreateResponse =
  respID :: string
  Warning :: string

subsection \<open>Lookup\<close>

definition NetworkControllerEnabled :: "Daemon \<Rightarrow> bool" where
  "NetworkControllerEnabled daemon = (netController daemon \<noteq> None)"

definition isNoSuchNetworkError :: "error \<Rightarrow> bool" where
  "isNoSuchNetworkError err = (case err of ErrNoSuchNetwork _ \<Rightarrow> True | _ \<Rightarrow> False)"

definition GetNetworkByName :: "Daemon \<Rightarrow> string \<Rightarrow> (error + Network) \<times> event list" where
  "GetNetworkByName daemon name =
     (case netController daemon of
        None \<Rightarrow> (Inl (ErrNoSuchNetwork name), [])
      | Some c \<Rightarrow>
          (if name = []
           then (NetworkByName c (DefaultNetwork c), [CallConfig, CallNetworkByName (DefaultNetwork c)])
           else (NetworkByName c name, [CallNetworkByName name])))"

definition GetNetworksByID :: "Daemon \<Rightarrow> string \<Rightarrow> Network list \<times> event list" where
  "GetNetworksByID daemon partialID =
     (case netController daemon of
        None \<Rightarrow> ([], [])
      | Some c \<Rightarrow>
          (WalkNetworks (ctlNetworks c)
             (\<lambda>nw list. (False, if prefix partialID (ID nw) then list @ [nw] else list)) [],
           [CallWalkNetworks]))"

definition GetNetworkByID :: "Daemon \<Rightarrow> string \<Rightarrow> (error + Network) \<times> event list" where
  "GetNetworkByID daemon partialID =
     (case GetNetworksByID daemon partialID of
        (list, evs) \<Rightarrow>
          (if length list = 0 then (Inl (ErrNoSuchNetwork partialID), evs)
           else if length list > 1 then (Inl (ErrInvalidID partialID), evs)
           else (Inr (list ! 0), evs)))"

definition FindNetwork :: "Daemon \<Rightarrow> string \<Rightarrow> (error + Network) \<times> event list" where
  "FindNetwork daemon idName =
     (case GetNetworkByName daemon idName of
        (Inl err, evs) \<Rightarrow>
          (if \<not> isNoSuchNetworkError err then (Inl err, evs)
           else (case GetNetworkByID daemon idName of (r, evs') \<Rightarrow> (r, evs @ evs')))
      | (Inr n, evs) \<Rightarrow> (Inr n, evs))"

text \<open>\<open>getAllNetworks\<close> calls \<open>WalkNetworks\<close> on the controller without a nil check.\<close>

definition getAllNetworks :: "Daemon \<Rightarrow> (error + Network list) \<times> event list" where
  "getAllNetworks daemon =
     (case netController daemon of
        None \<Rightarrow> (Inl NilDereference, [])
      | Some c \<Rightarrow>
          (Inr (WalkNetworks (ctlNetworks c) (\<lambda>nw list. (False, list @ [nw])) []),
           [CallWalkNetworks]))"

definition GetNetworks :: "Daemon \<Rightarrow> (error + Network list) \<times> event list" where
  "GetNetworks daemon = getAllNetworks daemon"

text \<open>
  The networks known to a daemon, for stating the lookup properties: those its
  controller walks, none where there is no controller.
\<close>

definition knownNetworks :: "Daemon \<Rightarrow> Network list" where
  "knownNetworks daemon = (case netController daemon of None \<Rightarrow> [] | Some c \<Rightarrow> ctlNetworks c)"

subsection \<open>Creation\<close>

text \<open>
  \<open>getIpamConfig\<close> sorts the IPAM entries of a request into IPv4 and IPv6
  configurations. \<open>net.ParseCIDR\<close> is the parameter \<open>ParseCIDR\<close>: for a subnet string
  it answers with the text of its error, or with whether the parsed address has a
  four-byte form (\<open>ip.To4() != nil\<close>).
\<close>

fun getIpamConfig_loop ::
  "(string \<Rightarrow> string + bool) \<Rightarrow> IPAMConfig list \<Rightarrow> IpamConf list \<Rightarrow> IpamConf list
     \<Rightarrow> error + IpamConf list \<times> IpamConf list" where
  "getIpamConfig_loop ParseCIDR [] ipamV4Cfg ipamV6Cfg = Inr (ipamV4Cfg, ipamV6Cfg)"
| "getIpamConfig_loop ParseCIDR (d # data) ipamV4Cfg ipamV6Cfg =
     (let iCfg = \<lparr>PreferredPool = Subnet d, SubPool = IPRange d, Gateway = cfgGateway d,
                  AuxAddresses = AuxAddress d\<rparr>
      in case ParseCIDR (Subnet d) of
           Inl err \<Rightarrow> Inl (Errorf (''Invalid subnet '' @ Subnet d @ '' : '' @ err))
         | Inr isV4 \<Rightarrow>
             if isV4 then getIpamConfig_loop ParseCIDR data (ipamV4Cfg @ [iCfg]) ipamV6Cfg
             else getIpamConfig_loop ParseCIDR data ipamV4Cfg (ipamV6Cfg @ [iCfg]))"

definition getIpamConfig ::
  "(string \<Rightarrow> string + bool) \<Rightarrow> IPAMConfig list \<Rightarrow> error + IpamConf list \<times> IpamConf list" where
  "getIpamConfig ParseCIDR data = getIpamConfig_loop ParseCIDR data [] []"

text \<open>
  \<open>createNetwork\<close>. \<open>runconfig.IsPreDefinedNetwork\<close> is the parameter
  \<open>IsPreDefinedNetwork\<close>. The source checks, in this order: the pre-defined name, the
  lookup by name (an error other than no-such-network is returned), the duplicate
  check, the default driver (read from the controller's configuration, a nil
  dereference where there is no controller), the IPAM configuration, and then calls
  \<open>NewNetwork\<close>.
\<close>

definition createWarning :: "Network option \<Rightarrow> string" where
  "createWarning nw =
     (case nw of
        None \<Rightarrow> []
      | Some n \<Rightarrow> ''Network with name '' @ Name n @ '' (id : '' @ ID n @ '') already exists'')"

definition createOptions ::
  "NetworkCreateRequest \<Rightarrow> IpamConf list \<Rightarrow> IpamConf list \<Rightarrow> bool \<Rightarrow> NetworkOption list" where
  "createOptions create v4Conf v6Conf agent =
     [NetworkOptionIpam (ipamDriver (IPAM create)) [] v4Conf v6Conf (ipamOptions (IPAM create)),
      NetworkOptionEnableIPv6 (EnableIPv6 create),
      NetworkOptionDriverOpts (Options create),
      NetworkOptionLabels (Labels create)]
     @ (if Internal create then [NetworkOptionInternalNetwork] else [])
     @ (if agent then [NetworkOptionDynamic, NetworkOptionPersist False] else [])"

definition createNew ::
  "(string \<Rightarrow> string + bool) \<Rightarrow> Daemon \<Rightarrow> NetworkCreateRequest \<Rightarrow> string \<Rightarrow> bool
     \<Rightarrow> string \<Rightarrow> event list \<Rightarrow> (error + NetworkCreateResponse) \<times> event list" where
  "createNew ParseCIDR daemon create ident agent warning evs =
     (case (if Driver create = []
            then (case netController daemon of
                    None \<Rightarrow> (Inl NilDereference, evs)
                  | Some c \<Rightarrow> (Inr (DefaultDriver c), evs @ [CallConfig]))
            else (Inr (Driver create), evs)) of
        (Inl err, evs1) \<Rightarrow> (Inl err, evs1)
      | (Inr driver, evs1) \<Rightarrow>
          (case getIpamConfig ParseCIDR (Config (IPAM create)) of
             Inl err \<Rightarrow> (Inl err, evs1)
           | Inr (v4Conf, v6Conf) \<Rightarrow>
               (let nwOptions = createOptions create v4Conf v6Conf agent
                in case netController daemon of
                     None \<Rightarrow> (Inl NilDereference, evs1)
                   | Some c \<Rightarrow>
                       (case NewNetwork c driver (reqName create) ident nwOptions of
                          Inl err \<Rightarrow>
                            (Inl err, evs1 @ [CallNewNetwork driver (reqName create) ident nwOptions])
                        | Inr n \<Rightarrow>
                            (Inr \<lparr>respID = ID n, Warning = warning\<rparr>,
                             evs1 @ [CallNewNetwork driver (reqName create) ident nwOptions,
                                     LogNetworkEvent n ''create''])))))"

definition createNetwork ::
  "(string \<Rightarrow> bool) \<Rightarrow> (string \<Rightarrow> string + bool) \<Rightarrow> Daemon \<Rightarrow> NetworkCreateRequest
     \<Rightarrow> string \<Rightarrow> bool \<Rightarrow> (error + NetworkCreateResponse) \<times> event list" where
  "createNetwork IsPreDefinedNetwork ParseCIDR daemon create ident agent =
     (if IsPreDefinedNetwork (reqName create) \<and> \<not> agent
      then (Inl (RequestForbiddenError
                   (reqName create @ '' is a pre-defined network and cannot be created'')), [])
      else (case GetNetworkByName daemon (reqName create) of
              (Inl err, evs) \<Rightarrow>
                (if \<not> isNoSuchNetworkError err then (Inl err, evs)
                 else createNew ParseCIDR daemon create ident agent (createWarning None) evs)
            | (Inr nw, evs) \<Rightarrow>
                (if CheckDuplicate create then (Inl (NetworkNameError (reqName create)), evs)
                 else createNew ParseCIDR daemon create ident agent (createWarning (Some nw)) evs)))"

definition CreateNetwork ::
  "(string \<Rightarrow> bool) \<Rightarrow> (string \<Rightarrow> string + bool) \<Rightarrow> Daemon \<Rightarrow> NetworkCreateRequest
     \<Rightarrow> (error + NetworkCreateResponse) \<times> event list" where
  "CreateNetwork IsPreDefinedNetwork ParseCIDR daemon create =
     createNetwork IsPreDefinedNetwork ParseCIDR daemon create [] False"

subsection \<open>Deletion\<close>

definition deleteNetwork ::
  "(string \<Rightarrow> bool) \<Rightarrow> Daemon \<Rightarrow> string \<Rightarrow> bool \<Rightarrow> error option \<times> event list" where
  "deleteNetwork IsPreDefinedNetwork daemon networkID dynamic =
     (case FindNetwork daemon networkID of
        (Inl err, evs) \<Rightarrow> (Some err, evs)
      | (Inr nw, evs) \<Rightarrow>
          (if IsPreDefinedNetwork (Name nw) \<and> \<not> dynamic
           then (Some (RequestForbiddenError
                         (Name nw @ '' is a pre-defined network and cannot be removed'')), evs)
           else (case Delete nw of
                   Some err \<Rightarrow> (Some err, evs @ [CallDelete nw])
                 | None \<Rightarrow> (None, evs @ [CallDelete nw, LogNetworkEvent nw ''destroy'']))))"

definition DeleteManagedNetwork :: "(string \<Rightarrow> bool) \<Rightarrow> Daemon \<Rightarrow> string \<Rightarrow> error option \<times> event list" where
  "DeleteManagedNetwork IsPreDefinedNetwork daemon networkID =
     deleteNetwork IsPreDefinedNetwork daemon networkID True"

definition DeleteNetwork :: "(string \<Rightarrow> bool) \<Rightarrow> Daemon \<Rightarrow> string \<Rightarrow> error option \<times> event list" where
  "DeleteNetwork IsPreDefinedNetwork daemon networkID =
     deleteNetwork IsPreDefinedNetwork daemon networkID False"

section \<open>api/client/stack: networks of a stack\<close>

text \<open>
  A service of a bundle, with the one field the deploy code reads here. The
  \<open>map[string]bundlefile.Service\<close> of a bundle is the list of its entries in the order
  in which the \<open>range\<close> statement visits them, an order Go leaves unspecified.
\<close>

record Service =
  Networks :: "string list"

definition networkSet :: "(string \<times> Service) list \<Rightarrow> (string \<rightharpoonup> bool)" where
  "networkSet services =
     foldl (\<lambda>set service. foldl (\<lambda>set network. set(network \<mapsto> True)) set (Networks (snd service)))
       Map.empty services"

text \<open>
  The second loop ranges over the keys of \<open>networkSet\<close>; \<open>rangeKeys\<close> is the order in
  which the Go run time visits the keys of a map.
\<close>

definition getUniqueNetworkNames ::
  "((string \<rightharpoonup> bool) \<Rightarrow> string list) \<Rightarrow> (string \<times> Service) list \<Rightarrow> string list" where
  "getUniqueNetworkNames rangeKeys services =
     foldl (\<lambda>networks network. networks @ [network]) [] (rangeKeys (networkSet services))"

text \<open>Labels and filters of a stack (the second source file of the package).\<close>

definition labelNamespace :: string where
  "labelNamespace = ''com.docker.stack.namespace''"

definition defaultNetworkDriver :: string where
  "defaultNetworkDriver = ''overlay''"

definition getStackLabels :: "string \<Rightarrow> (string \<rightharpoonup> string) \<Rightarrow> (string \<rightharpoonup> string)" where
  "getStackLabels namespace labels = labels(labelNamespace \<mapsto> namespace)"

type_synonym Args = "(string \<times> string) list"

definition getStackFilter :: "string \<Rightarrow> Args" where
  "getStackFilter namespace = [] @ [(''label'', labelNamespace @ ''='' @ namespace)]"

record NetworkResource =
  resName :: string
  resID :: string

record NetworkListOptions =
  Filters :: Args

text \<open>
  The remote API client, through the two calls used here, and what the deploy code
  does besides returning: its calls on the client and its output, in order.
\<close>

record APIClient =
  NetworkList :: "NetworkListOptions \<Rightarrow> error + NetworkResource list"
  NetworkCreate :: "string \<Rightarrow> NetworkCreate \<Rightarrow> error + NetworkCreateResponse"

datatype cli_event =
    ApiNetworkList NetworkListOptions
  | ApiNetworkCreate string NetworkCreate
  | Out string

definition getNetworks ::
  "APIClient \<Rightarrow> string \<Rightarrow> (error + NetworkResource list) \<times> cli_event list" where
  "getNetworks apiclient namespace =
     (NetworkList apiclient \<lparr>Filters = getStackFilter namespace\<rparr>,
      [ApiNetworkList \<lparr>Filters = getStackFilter namespace\<rparr>])"

text \<open>The name \<open>fmt.Sprintf("%s_%s", namespace, internalName)\<close>.\<close>

definition stackNetworkName :: "string \<Rightarrow> string \<Rightarrow> string" where
  "stackNetworkName namespace internalName = namespace @ ''_'' @ internalName"

definition stackCreateOpts :: "string \<Rightarrow> NetworkCreate" where
  "stackCreateOpts namespace =
     \<lparr>CheckDuplicate = False, Driver = defaultNetworkDriver, EnableIPv6 = False,
      IPAM = \<lparr>ipamDriver = ''default'', ipamOptions = Map.empty, Config = []\<rparr>,
      Internal = False, Options = Map.empty, Labels = getStackLabels namespace Map.empty\<rparr>"

fun updateNetworks_loop ::
  "APIClient \<Rightarrow> string \<Rightarrow> (string \<rightharpoonup> NetworkResource) \<Rightarrow> NetworkCreate \<Rightarrow> string list
     \<Rightarrow> error option \<times> cli_event list" where
  "updateNetworks_loop cl namespace existingNetworkMap createOpts [] = (None, [])"
| "updateNetworks_loop cl namespace existingNetworkMap createOpts (internalName # networks) =
     (let name = stackNetworkName namespace internalName
      in if existingNetworkMap name \<noteq> None
         then updateNetworks_loop cl namespace existingNetworkMap createOpts networks
         else (case NetworkCreate cl name createOpts of
                 Inl err \<Rightarrow>
                   (Some err,
                    [Out (''Creating network '' @ name @ [CHR 0x0A]), ApiNetworkCreate name createOpts])
               | Inr _ \<Rightarrow>
                   (case updateNetworks_loop cl namespace existingNetworkMap createOpts networks of
                      (r, evs) \<Rightarrow>
                        (r, Out (''Creating network '' @ name @ [CHR 0x0A])
                            # ApiNetworkCreate name createOpts # evs))))"

definition updateNetworks ::
  "APIClient \<Rightarrow> string list \<Rightarrow> string \<Rightarrow> error option \<times> cli_event list" where
  "updateNetworks cl networks namespace =
     (case getNetworks cl namespace of
        (Inl err, evs) \<Rightarrow> (Some err, evs)
      | (Inr existingNetworks, evs) \<Rightarrow>
          (let existingNetworkMap =
                 foldl (\<lambda>m network. m(resName network \<mapsto> network)) Map.empty existingNetworks;
               createOpts = stackCreateOpts namespace
           in case updateNetworks_loop cl namespace existingNetworkMap createOpts networks of
                (r, evs') \<Rightarrow> (r, evs @ evs')))"

text \<open>The names for which a trace calls \<open>NetworkCreate\<close>, in order.\<close>

fun createdNames :: "cli_event list \<Rightarrow> string list" where
  "createdNames [] = []"
| "createdNames (ApiNetworkCreate name opts # evs) = name # createdNames evs"
| "createdNames (_ # evs) = createdNames evs"

text \<open>
  Whether the remote API accepts the creation of a network of the stack: the answer
  of \<open>NetworkCreate\<close> to the options \<open>updateNetworks\<close> sends is not an error.
\<close>

definition createSucceeds :: "APIClient \<Rightarrow> string \<Rightarrow> string \<Rightarrow> bool" where
  "createSucceeds cl namespace name = (\<not> isl (NetworkCreate cl name (stackCreateOpts namespace)))"

section \<open>Example instances\<close>

text \<open>
  A controller that finds a network by name as the first of its networks with that
  name, with three networks, one of them named like a prefix of another one's ID;
  a controller whose lookup by name fails; the pre-defined names of a Unix daemon; a
  creation request; a bundle and an order of iteration; an API client on which every
  creation fails and one that lists an existing network of the stack; a controller
  that knows a network with the empty name, and a daemon without a controller.
\<close>

definition lookupByName :: "Network list \<Rightarrow> string \<Rightarrow> error + Network" where
  "lookupByName nets name =
     (case find (\<lambda>nw. Name nw = name) nets of
        None \<Rightarrow> Inl (ErrNoSuchNetwork name)
      | Some n \<Rightarrow> Inr n)"

definition exampleNetworks :: "Network list" where
  "exampleNetworks =
     [\<lparr>Name = ''bridge'', ID = ''abc123'', Type = ''bridge'', Delete = None\<rparr>,
      \<lparr>Name = ''backend'', ID = ''abd456'', Type = ''overlay'', Delete = None\<rparr>,
      \<lparr>Name = ''abd'', ID = ''fff000'', Type = ''overlay'', Delete = None\<rparr>]"

definition exampleController :: NetworkController where
  "exampleController =
     \<lparr>NetworkByName = lookupByName exampleNetworks,
      ctlNetworks = exampleNetworks,
      DefaultNetwork = ''bridge'',
      DefaultDriver = ''bridge'',
      NewNetwork = (\<lambda>driver name ident opts.
         Inr \<lparr>Name = name, ID = ''0a1b2c'', Type = driver, Delete = None\<rparr>)\<rparr>"

definition exampleDaemon :: Daemon where
  "exampleDaemon = \<lparr>netController = Some exampleController\<rparr>"

definition brokenDaemon :: Daemon where
  "brokenDaemon =
     \<lparr>netController = Some (exampleController
        \<lparr>NetworkByName := (\<lambda>name. Inl (ExternalError ''store unavailable''))\<rparr>)\<rparr>"

definition examplePreDefined :: "string \<Rightarrow> bool" where
  "examplePreDefined name = (name \<in> set [''bridge'', ''host'', ''none'', ''default''])"

definition exampleParseCIDR :: "string \<Rightarrow> string + bool" where
  "exampleParseCIDR subnet = Inr True"

definition exampleRequest :: "string \<Rightarrow> bool \<Rightarrow> NetworkCreateRequest" where
  "exampleRequest name check =
     \<lparr>CheckDuplicate = check, Driver = [], EnableIPv6 = False,
      IPAM = \<lparr>ipamDriver = ''default'', ipamOptions = Map.empty, Config = []\<rparr>,
      Internal = False, Options = Map.empty, Labels = Map.empty, reqName = name\<rparr>"

definition exampleServices :: "(string \<times> Service) list" where
  "exampleServices =
     [(''web'', \<lparr>Networks = [''front'', ''back'']\<rparr>),
      (''db'', \<lparr>Networks = [''back'']\<rparr>),
      (''cache'', \<lparr>Networks = []\<rparr>)]"

definition exampleRangeKeys :: "(string \<rightharpoonup> bool) \<Rightarrow> string list" where
  "exampleRangeKeys m = filter (\<lambda>k. m k \<noteq> None) [''back'', ''front'', ''other'']"

definition failingClient :: APIClient where
  "failingClient =
     \<lparr>NetworkList = (\<lambda>options. Inr []),
      NetworkCreate = (\<lambda>name options. Inl (ExternalError ''network create failed''))\<rparr>"

definition exampleClient :: APIClient where
  "exampleClient =
     \<lparr>NetworkList = (\<lambda>options. Inr [\<lparr>resName = ''shop_back'', resID = ''77aa''\<rparr>]),
      NetworkCreate = (\<lambda>name options. Inr \<lparr>respID = ''0a1b2c'', Warning = []\<rparr>)\<rparr>"

definition unnamedNetworks :: "Network list" where
  "unnamedNetworks =
     [\<lparr>Name = ''bridge'', ID = ''abc123'', Type = ''bridge'', Delete = None\<rparr>,
      \<lparr>Name = [], ID = ''eee111'', Type = ''overlay'', Delete = None\<rparr>]"

definition unnamedController :: NetworkController where
  "unnamedController =
     exampleController\<lparr>NetworkByName := lookupByName unnamedNetworks, ctlNetworks := unnamedNetworks\<rparr>"

definition unnamedDaemon :: Daemon where
  "unnamedDaemon = \<lparr>netController = Some unnamedController\<rparr>"

definition disabledDaemon :: Daemon where
  "disabledDaemon = \<lparr>netController = None\<rparr>"

section \<open>Properties of the ID resolver\<close>

lemma Resolve_hit:
  "\<not> noResolve r \<Longrightarrow> cache r ident = Some name \<Longrightarrow> Resolve r t ident = (Inr name, r, [])"
  by (simp add: Resolve_def)

lemma Resolve_success_cached:
  assumes "\<not> noResolve r" and "Resolve r t ident = (Inr name, r', qs)"
  shows "cache r' ident = Some name \<and> noResolve r' = noResolve r \<and> client r' = client r"
  using assms by (auto simp: Resolve_def split: option.splits sum.splits)

text \<open>
  C1. Once a call of \<open>Resolve\<close> with resolution enabled has succeeded for an id (so the
  name is in the cache), a second call for the same id, for any kind of object and
  whatever the remote manager would now answer, returns that name, leaves the resolver
  as it is and issues no remote query.
\<close>

theorem Resolve_second_call_cached:
  assumes "\<not> noResolve r" and "Resolve r t ident = (Inr name, r', qs)"
  shows "Resolve (r'\<lparr>client := cl'\<rparr>) t' ident = (Inr name, r'\<lparr>client := cl'\<rparr>, [])"
proof -
  from Resolve_success_cached [OF assms]
  have "cache r' ident = Some name" and "\<not> noResolve r'"
    using assms(1) by simp_all
  then show ?thesis by (simp add: Resolve_hit)
qed

theorem Resolve_second_call_cached_witness:
  "\<not> noResolve (New (\<lambda>t ident. Inr (''node-'' @ ident)) False :: unit IDResolver) \<and>
   Resolve (New (\<lambda>t ident. Inr (''node-'' @ ident)) False) () ''abc'' =
     (Inr ''node-abc'',
      \<lparr>client = (\<lambda>t ident. Inr (''node-'' @ ident)), noResolve = False, cache = [''abc'' \<mapsto> ''node-abc'']\<rparr>,
      [((), ''abc'')]) \<and>
   Resolve \<lparr>client = (\<lambda>t ident. Inl (ExternalError ''down'')), noResolve = False,
            cache = [''abc'' \<mapsto> ''node-abc'']\<rparr> () ''abc'' =
     (Inr ''node-abc'',
      \<lparr>client = (\<lambda>t ident. Inl (ExternalError ''down'')), noResolve = False,
       cache = [''abc'' \<mapsto> ''node-abc'']\<rparr>, [])"
proof -
  let ?cl = "\<lambda>(t::unit) ident. (Inr (''node-'' @ ident) :: error + string)"
  let ?r' = "\<lparr>client = ?cl, noResolve = False, cache = [''abc'' \<mapsto> ''node-abc'']\<rparr>"
  have h1: "\<not> noResolve (New ?cl False)" by (simp add: New_def)
  have h2: "Resolve (New ?cl False) () ''abc'' = (Inr ''node-abc'', ?r', [((), ''abc'')])"
    by (simp add: New_def Resolve_def)
  from Resolve_second_call_cached [OF h1 h2, of "\<lambda>t ident. Inl (ExternalError ''down'')" "()"]
  show ?thesis using h1 h2 by simp
qed

text \<open>
  C8. With the no-resolve flag set, \<open>Resolve\<close> returns the id it was given and no error,
  issues no remote query and leaves the resolver, its cache included, unchanged.
\<close>

theorem Resolve_noResolve:
  assumes "noResolve r"
  shows "Resolve r t ident = (Inr ident, r, [])"
  using assms by (simp add: Resolve_def)

theorem Resolve_noResolve_witness:
  "noResolve (New (\<lambda>t ident. Inr (''node-'' @ ident)) True :: unit IDResolver) \<and>
   Resolve (New (\<lambda>t ident. Inr (''node-'' @ ident)) True) () ''abc'' =
     (Inr ''abc'', New (\<lambda>t ident. Inr (''node-'' @ ident)) True, []) \<and>
   cache (New (\<lambda>t ident. Inr (''node-'' @ ident)) True :: unit IDResolver) = Map.empty"
proof -
  let ?r = "New (\<lambda>t ident. Inr (''node-'' @ ident)) True :: unit IDResolver"
  have h: "noResolve ?r" by (simp add: New_def)
  from Resolve_noResolve [OF h, of "()" "''abc''"]
  show ?thesis using h by (simp add: New_def)
qed

section \<open>Properties of the network lookup\<close>

lemma WalkNetworks_collect:
  "WalkNetworks nets (\<lambda>nw list. (False, if P nw then list @ [nw] else list)) acc = acc @ filter P nets"
  by (induction nets arbitrary: acc) simp_all

lemma GetNetworksByID_known:
  "fst (GetNetworksByID daemon partialID) = filter (\<lambda>nw. prefix partialID (ID nw)) (knownNetworks daemon)"
  by (simp add: GetNetworksByID_def knownNetworks_def WalkNetworks_collect split: option.splits)

lemma GetNetworkByID_cases:
  "fst (GetNetworkByID daemon partialID) =
     (case filter (\<lambda>nw. prefix partialID (ID nw)) (knownNetworks daemon) of
        [] \<Rightarrow> Inl (ErrNoSuchNetwork partialID)
      | [n] \<Rightarrow> Inr n
      | _ \<Rightarrow> Inl (ErrInvalidID partialID))"
  using GetNetworksByID_known [of daemon partialID]
  by (auto simp: GetNetworkByID_def split: prod.splits list.splits)

text \<open>
  C3. When exactly one of the networks known to the daemon has an ID that begins with
  the partial ID (the known networks with such an ID are the single network \<open>n\<close>),
  \<open>GetNetworkByID\<close> returns that network and no error.
\<close>

theorem GetNetworkByID_unique:
  assumes "filter (\<lambda>nw. prefix partialID (ID nw)) (knownNetworks daemon) = [n]"
  shows "fst (GetNetworkByID daemon partialID) = Inr n"
  using assms by (simp add: GetNetworkByID_cases)

theorem GetNetworkByID_unique_witness:
  "filter (\<lambda>nw. prefix ''abd'' (ID nw)) (knownNetworks exampleDaemon) =
     [\<lparr>Name = ''backend'', ID = ''abd456'', Type = ''overlay'', Delete = None\<rparr>]
   \<and> fst (GetNetworkByID exampleDaemon ''abd'') =
       Inr \<lparr>Name = ''backend'', ID = ''abd456'', Type = ''overlay'', Delete = None\<rparr>"
proof -
  have h: "filter (\<lambda>nw. prefix ''abd'' (ID nw)) (knownNetworks exampleDaemon) =
     [\<lparr>Name = ''backend'', ID = ''abd456'', Type = ''overlay'', Delete = None\<rparr>]"
    by (simp add: knownNetworks_def exampleDaemon_def exampleController_def exampleNetworks_def)
  from GetNetworkByID_unique [OF h] h show ?thesis by simp
qed

text \<open>
  C4. When no network known to the daemon has an ID that begins with the partial ID,
  \<open>GetNetworkByID\<close> returns no network and fails with the no-such-network error for
  that partial ID.
\<close>

theorem GetNetworkByID_none:
  assumes "\<forall>nw \<in> set (knownNetworks daemon). \<not> prefix partialID (ID nw)"
  shows "fst (GetNetworkByID daemon partialID) = Inl (ErrNoSuchNetwork partialID)"
proof -
  from assms have "filter (\<lambda>nw. prefix partialID (ID nw)) (knownNetworks daemon) = []"
    by (simp add: filter_empty_conv)
  then show ?thesis by (simp add: GetNetworkByID_cases)
qed

theorem GetNetworkByID_none_witness:
  "list_all (\<lambda>nw. \<not> prefix ''abe'' (ID nw)) (knownNetworks exampleDaemon)
   \<and> fst (GetNetworkByID exampleDaemon ''abe'') = Inl (ErrNoSuchNetwork ''abe'')"
proof -
  have h: "\<forall>nw \<in> set (knownNetworks exampleDaemon). \<not> prefix ''abe'' (ID nw)"
    by (simp add: knownNetworks_def exampleDaemon_def exampleController_def exampleNetworks_def)
  from GetNetworkByID_none [OF h] h show ?thesis by (simp add: list_all_iff)
qed

text \<open>
  C5. When more than one network known to the daemon has an ID that begins with the
  partial ID, \<open>GetNetworkByID\<close> returns no network and fails with the invalid-ID
  error for that partial ID.
\<close>

theorem GetNetworkByID_ambiguous:
  assumes "1 < length (filter (\<lambda>nw. prefix partialID (ID nw)) (knownNetworks daemon))"
  shows "fst (GetNetworkByID daemon partialID) = Inl (ErrInvalidID partialID)"
  using assms by (auto simp: GetNetworkByID_cases split: list.splits)

theorem GetNetworkByID_ambiguous_witness:
  "1 < length (filter (\<lambda>nw. prefix ''ab'' (ID nw)) (knownNetworks exampleDaemon))
   \<and> fst (GetNetworkByID exampleDaemon ''ab'') = Inl (ErrInvalidID ''ab'')"
proof -
  have h: "1 < length (filter (\<lambda>nw. prefix ''ab'' (ID nw)) (knownNetworks exampleDaemon))"
    by (simp add: knownNetworks_def exampleDaemon_def exampleController_def exampleNetworks_def)
  from GetNetworkByID_ambiguous [OF h] h show ?thesis by simp
qed

text \<open>The lookups call nothing but the lookup methods of the controller.\<close>

lemma GetNetworkByName_trace:
  "set (snd (GetNetworkByName daemon name)) \<subseteq> insert CallConfig (range CallNetworkByName)"
  by (auto simp: GetNetworkByName_def split: option.splits)

lemma GetNetworkByID_trace:
  "set (snd (GetNetworkByID daemon partialID)) \<subseteq> {CallWalkNetworks}"
  by (auto simp: GetNetworkByID_def GetNetworksByID_def split: option.splits prod.splits)

lemma FindNetwork_trace:
  "set (snd (FindNetwork daemon idName)) \<subseteq> insert CallConfig (insert CallWalkNetworks (range CallNetworkByName))"
  using GetNetworkByName_trace [of daemon idName] GetNetworkByID_trace [of daemon idName]
  by (auto simp: FindNetwork_def split: prod.splits sum.splits)

lemma ex_byName_abd:
  "GetNetworkByName exampleDaemon ''abd'' =
     (Inr \<lparr>Name = ''abd'', ID = ''fff000'', Type = ''overlay'', Delete = None\<rparr>, [CallNetworkByName ''abd''])"
  by (simp add: GetNetworkByName_def exampleDaemon_def exampleController_def lookupByName_def exampleNetworks_def)

lemma ex_byName_abc1:
  "GetNetworkByName exampleDaemon ''abc1'' = (Inl (ErrNoSuchNetwork ''abc1''), [CallNetworkByName ''abc1''])"
  by (simp add: GetNetworkByName_def exampleDaemon_def exampleController_def lookupByName_def exampleNetworks_def)

lemma ex_byID_abc1:
  "GetNetworkByID exampleDaemon ''abc1'' =
     (Inr \<lparr>Name = ''bridge'', ID = ''abc123'', Type = ''bridge'', Delete = None\<rparr>, [CallWalkNetworks])"
  by (simp add: GetNetworkByID_def GetNetworksByID_def exampleDaemon_def exampleController_def exampleNetworks_def)

lemma ex_byName_broken:
  "GetNetworkByName brokenDaemon ''abc1'' = (Inl (ExternalError ''store unavailable''), [CallNetworkByName ''abc1''])"
  by (simp add: GetNetworkByName_def brokenDaemon_def exampleController_def)

lemma GetNetworkByName_controller:
  "netController daemon = Some c \<Longrightarrow>
   fst (GetNetworkByName daemon idName) =
     NetworkByName c (if idName = [] then DefaultNetwork c else idName)"
  by (simp add: GetNetworkByName_def)

lemma GetNetworkByID_walks:
  "netController daemon = Some c \<Longrightarrow> snd (GetNetworkByID daemon idName) = [CallWalkNetworks]"
  by (simp add: GetNetworkByID_def GetNetworksByID_def split: prod.splits)

lemma FindNetwork_disabled:
  "netController daemon = None \<Longrightarrow> FindNetwork daemon idName = (Inl (ErrNoSuchNetwork idName), [])"
  by (simp add: FindNetwork_def GetNetworkByName_def GetNetworkByID_def GetNetworksByID_def
      isNoSuchNetworkError_def)

lemma ex_find_empty:
  "FindNetwork exampleDaemon [] =
     (Inr \<lparr>Name = ''bridge'', ID = ''abc123'', Type = ''bridge'', Delete = None\<rparr>,
      [CallConfig, CallNetworkByName ''bridge''])"
  by (simp add: FindNetwork_def GetNetworkByName_def exampleDaemon_def exampleController_def
      lookupByName_def exampleNetworks_def)

text \<open>
  C10, as stated, fails for the empty input string: the lookup by name replaces it by
  the name of the default network, so where a network with the empty name exists,
  \<open>FindNetwork\<close> returns the default network and not that one.
\<close>

theorem FindNetwork_empty_name_counterexample:
  "netController unnamedDaemon = Some unnamedController
   \<and> \<lparr>Name = [], ID = ''eee111'', Type = ''overlay'', Delete = None\<rparr> \<in> set (ctlNetworks unnamedController)
   \<and> NetworkByName unnamedController [] =
        Inr \<lparr>Name = [], ID = ''eee111'', Type = ''overlay'', Delete = None\<rparr>
   \<and> FindNetwork unnamedDaemon [] =
        (Inr \<lparr>Name = ''bridge'', ID = ''abc123'', Type = ''bridge'', Delete = None\<rparr>,
         [CallConfig, CallNetworkByName ''bridge''])
   \<and> fst (FindNetwork unnamedDaemon []) \<noteq>
        Inr \<lparr>Name = [], ID = ''eee111'', Type = ''overlay'', Delete = None\<rparr>"
  by (simp add: FindNetwork_def GetNetworkByName_def unnamedDaemon_def unnamedController_def
      exampleController_def lookupByName_def unnamedNetworks_def)

text \<open>
  C10, amended. \<open>FindNetwork\<close> looks up by name first, under the input string or,
  for the empty input string, under the name of the default network. When the
  controller knows a network under that name, that network is returned and the
  networks are not walked for an ID prefix; in particular a network with the exact
  name of a non-empty input is returned. The walk happens only after the lookup by
  name has reported no such network, and then the result is that of the lookup by ID
  prefix; any other error of the lookup by name is returned as it is, without a walk.
  Without a controller the result is the no-such-network error.
\<close>

theorem FindNetwork_name_first:
  "(netController daemon = Some c
      \<and> NetworkByName c (if idName = [] then DefaultNetwork c else idName) = Inr n
      \<longrightarrow> FindNetwork daemon idName = (Inr n, snd (GetNetworkByName daemon idName))
          \<and> CallWalkNetworks \<notin> set (snd (FindNetwork daemon idName)))
   \<and> (netController daemon = Some c \<and> idName \<noteq> [] \<and> NetworkByName c idName = Inr n
      \<longrightarrow> fst (FindNetwork daemon idName) = Inr n)
   \<and> (netController daemon = Some c
      \<and> NetworkByName c (if idName = [] then DefaultNetwork c else idName) = Inl e
      \<and> \<not> isNoSuchNetworkError e
      \<longrightarrow> FindNetwork daemon idName = (Inl e, snd (GetNetworkByName daemon idName))
          \<and> CallWalkNetworks \<notin> set (snd (FindNetwork daemon idName)))
   \<and> (netController daemon = Some c
      \<and> NetworkByName c (if idName = [] then DefaultNetwork c else idName) = Inl e
      \<and> isNoSuchNetworkError e
      \<longrightarrow> fst (FindNetwork daemon idName) = fst (GetNetworkByID daemon idName)
          \<and> CallWalkNetworks \<in> set (snd (FindNetwork daemon idName)))
   \<and> (netController daemon = None
      \<longrightarrow> FindNetwork daemon idName = (Inl (ErrNoSuchNetwork idName), []))
   \<and> (CallWalkNetworks \<in> set (snd (FindNetwork daemon idName))
      \<longrightarrow> (\<exists>c' err. netController daemon = Some c'
            \<and> NetworkByName c' (if idName = [] then DefaultNetwork c' else idName) = Inl err
            \<and> isNoSuchNetworkError err))"
proof -
  have nowalk: "CallWalkNetworks \<notin> set (snd (GetNetworkByName daemon idName))"
    using GetNetworkByName_trace [of daemon idName] by auto
  have hit: "fst (GetNetworkByName daemon idName) = Inr n
      \<Longrightarrow> FindNetwork daemon idName = (Inr n, snd (GetNetworkByName daemon idName))"
    by (auto simp: FindNetwork_def split: prod.splits sum.splits)
  have other: "fst (GetNetworkByName daemon idName) = Inl e \<Longrightarrow> \<not> isNoSuchNetworkError e
      \<Longrightarrow> FindNetwork daemon idName = (Inl e, snd (GetNetworkByName daemon idName))"
    by (auto simp: FindNetwork_def split: prod.splits sum.splits)
  have miss: "fst (GetNetworkByName daemon idName) = Inl e \<Longrightarrow> isNoSuchNetworkError e
      \<Longrightarrow> FindNetwork daemon idName =
            (fst (GetNetworkByID daemon idName),
             snd (GetNetworkByName daemon idName) @ snd (GetNetworkByID daemon idName))"
    by (auto simp: FindNetwork_def split: prod.splits sum.splits)
  have a: "netController daemon = Some c
      \<and> NetworkByName c (if idName = [] then DefaultNetwork c else idName) = Inr n
      \<longrightarrow> FindNetwork daemon idName = (Inr n, snd (GetNetworkByName daemon idName))
          \<and> CallWalkNetworks \<notin> set (snd (FindNetwork daemon idName))"
  proof
    assume h: "netController daemon = Some c
      \<and> NetworkByName c (if idName = [] then DefaultNetwork c else idName) = Inr n"
    then have "fst (GetNetworkByName daemon idName) = Inr n"
      by (simp only: GetNetworkByName_controller)
    from hit [OF this] nowalk
    show "FindNetwork daemon idName = (Inr n, snd (GetNetworkByName daemon idName))
          \<and> CallWalkNetworks \<notin> set (snd (FindNetwork daemon idName))"
      by simp
  qed
  have b: "netController daemon = Some c \<and> idName \<noteq> [] \<and> NetworkByName c idName = Inr n
      \<longrightarrow> fst (FindNetwork daemon idName) = Inr n"
    using a by simp
  have c: "netController daemon = Some c
      \<and> NetworkByName c (if idName = [] then DefaultNetwork c else idName) = Inl e
      \<and> \<not> isNoSuchNetworkError e
      \<longrightarrow> FindNetwork daemon idName = (Inl e, snd (GetNetworkByName daemon idName))
          \<and> CallWalkNetworks \<notin> set (snd (FindNetwork daemon idName))"
  proof
    assume h: "netController daemon = Some c
      \<and> NetworkByName c (if idName = [] then DefaultNetwork c else idName) = Inl e
      \<and> \<not> isNoSuchNetworkError e"
    then have "fst (GetNetworkByName daemon idName) = Inl e"
      by (simp only: GetNetworkByName_controller)
    from other [OF this] h nowalk
    show "FindNetwork daemon idName = (Inl e, snd (GetNetworkByName daemon idName))
          \<and> CallWalkNetworks \<notin> set (snd (FindNetwork daemon idName))"
      by simp
  qed
  have d: "netController daemon = Some c
      \<and> NetworkByName c (if idName = [] then DefaultNetwork c else idName) = Inl e
      \<and> isNoSuchNetworkError e
      \<longrightarrow> fst (FindNetwork daemon idName) = fst (GetNetworkByID daemon idName)
          \<and> CallWalkNetworks \<in> set (snd (FindNetwork daemon idName))"
  proof
    assume h: "netController daemon = Some c
      \<and> NetworkByName c (if idName = [] then DefaultNetwork c else idName) = Inl e
      \<and> isNoSuchNetworkError e"
    then have "fst (GetNetworkByName daemon idName) = Inl e"
      by (simp only: GetNetworkByName_controller)
    from miss [OF this] h GetNetworkByID_walks [of daemon c idName]
    show "fst (FindNetwork daemon idName) = fst (GetNetworkByID daemon idName)
          \<and> CallWalkNetworks \<in> set (snd (FindNetwork daemon idName))"
      by simp
  qed
  have e: "netController daemon = None
      \<longrightarrow> FindNetwork daemon idName = (Inl (ErrNoSuchNetwork idName), [])"
    by (simp add: FindNetwork_disabled)
  have f: "CallWalkNetworks \<in> set (snd (FindNetwork daemon idName))
      \<longrightarrow> (\<exists>c' err. netController daemon = Some c'
            \<and> NetworkByName c' (if idName = [] then DefaultNetwork c' else idName) = Inl err
            \<and> isNoSuchNetworkError err)"
  proof
    assume w: "CallWalkNetworks \<in> set (snd (FindNetwork daemon idName))"
    show "\<exists>c' err. netController daemon = Some c'
            \<and> NetworkByName c' (if idName = [] then DefaultNetwork c' else idName) = Inl err
            \<and> isNoSuchNetworkError err"
    proof (cases "netController daemon")
      case None
      with w show ?thesis by (simp add: FindNetwork_disabled)
    next
      case (Some c')
      show ?thesis
      proof (cases "fst (GetNetworkByName daemon idName)")
        case (Inr m)
        from hit nowalk w Inr show ?thesis
          by (auto simp: FindNetwork_def split: prod.splits sum.splits)
      next
        case (Inl err)
        show ?thesis
        proof (cases "isNoSuchNetworkError err")
          case True
          from Inl have "NetworkByName c' (if idName = [] then DefaultNetwork c' else idName) = Inl err"
            by (simp only: GetNetworkByName_controller [OF Some])
          with Some True show ?thesis by blast
        next
          case False
          from nowalk w Inl False show ?thesis
            by (auto simp: FindNetwork_def split: prod.splits sum.splits)
        qed
      qed
    qed
  qed
  from a b c d e f show ?thesis by blast
qed

theorem FindNetwork_name_first_witness:
  "FindNetwork exampleDaemon ''abd'' =
     (Inr \<lparr>Name = ''abd'', ID = ''fff000'', Type = ''overlay'', Delete = None\<rparr>, [CallNetworkByName ''abd''])
   \<and> prefix ''abd'' (ID \<lparr>Name = ''backend'', ID = ''abd456'', Type = ''overlay'', Delete = None\<rparr>)
   \<and> FindNetwork exampleDaemon [] =
     (Inr \<lparr>Name = ''bridge'', ID = ''abc123'', Type = ''bridge'', Delete = None\<rparr>,
      [CallConfig, CallNetworkByName ''bridge''])
   \<and> NetworkByName exampleController ''abc1'' = Inl (ErrNoSuchNetwork ''abc1'')
   \<and> fst (FindNetwork exampleDaemon ''abc1'') =
       Inr \<lparr>Name = ''bridge'', ID = ''abc123'', Type = ''bridge'', Delete = None\<rparr>
   \<and> CallWalkNetworks \<in> set (snd (FindNetwork exampleDaemon ''abc1''))
   \<and> FindNetwork brokenDaemon ''abc1'' =
       (Inl (ExternalError ''store unavailable''), [CallNetworkByName ''abc1''])
   \<and> FindNetwork disabledDaemon ''abc1'' = (Inl (ErrNoSuchNetwork ''abc1''), [])"
proof -
  let ?abd = "\<lparr>Name = ''abd'', ID = ''fff000'', Type = ''overlay'', Delete = None\<rparr>"
  let ?bridge = "\<lparr>Name = ''bridge'', ID = ''abc123'', Type = ''bridge'', Delete = None\<rparr>"
  let ?broken = "exampleController\<lparr>NetworkByName := (\<lambda>name. Inl (ExternalError ''store unavailable''))\<rparr>"
  have c1: "netController exampleDaemon = Some exampleController"
    by (simp add: exampleDaemon_def)
  have c2: "netController brokenDaemon = Some ?broken"
    by (simp add: brokenDaemon_def)
  have c3: "netController disabledDaemon = None"
    by (simp add: disabledDaemon_def)
  have n1: "NetworkByName exampleController ''abd'' = Inr ?abd"
    by (simp add: exampleController_def lookupByName_def exampleNetworks_def)
  have n2: "NetworkByName exampleController (DefaultNetwork exampleController) = Inr ?bridge"
    by (simp add: exampleController_def lookupByName_def exampleNetworks_def)
  have n3: "NetworkByName exampleController ''abc1'' = Inl (ErrNoSuchNetwork ''abc1'')"
    by (simp add: exampleController_def lookupByName_def exampleNetworks_def)
  have n4: "NetworkByName ?broken ''abc1'' = Inl (ExternalError ''store unavailable'')"
    by simp
  from FindNetwork_name_first
         [where daemon = exampleDaemon and c = exampleController and idName = "''abd''"
            and n = ?abd and e = "ErrNoSuchNetwork ''abd''"] c1 n1
  have r1: "FindNetwork exampleDaemon ''abd'' = (Inr ?abd, [CallNetworkByName ''abd''])"
    by (simp add: ex_byName_abd)
  from FindNetwork_name_first
         [where daemon = exampleDaemon and c = exampleController and idName = "[]"
            and n = ?bridge and e = "ErrNoSuchNetwork []"] c1 n2
  have r2: "FindNetwork exampleDaemon [] = (Inr ?bridge, [CallConfig, CallNetworkByName ''bridge''])"
    by (simp add: GetNetworkByName_def exampleController_def)
  from FindNetwork_name_first
         [where daemon = exampleDaemon and c = exampleController and idName = "''abc1''"
            and n = ?abd and e = "ErrNoSuchNetwork ''abc1''"] c1 n3
  have r3: "fst (FindNetwork exampleDaemon ''abc1'') = Inr ?bridge
            \<and> CallWalkNetworks \<in> set (snd (FindNetwork exampleDaemon ''abc1''))"
    by (simp add: isNoSuchNetworkError_def ex_byID_abc1)
  from FindNetwork_name_first
         [where daemon = brokenDaemon and c = ?broken and idName = "''abc1''"
            and n = ?abd and e = "ExternalError ''store unavailable''"] c2 n4
  have r4: "FindNetwork brokenDaemon ''abc1'' =
       (Inl (ExternalError ''store unavailable''), [CallNetworkByName ''abc1''])"
    by (simp add: isNoSuchNetworkError_def ex_byName_broken)
  from FindNetwork_name_first
         [where daemon = disabledDaemon and c = exampleController and idName = "''abc1''"
            and n = ?abd and e = "ErrNoSuchNetwork ''abc1''"] c3
  have r5: "FindNetwork disabledDaemon ''abc1'' = (Inl (ErrNoSuchNetwork ''abc1''), [])"
    by simp
  from r1 r2 r3 r4 r5 n3 show ?thesis by simp
qed

section \<open>Properties of creation and deletion\<close>

lemma ex_find_abc:
  "FindNetwork exampleDaemon ''abc'' =
    (Inr \<lparr>Name = ''bridge'', ID = ''abc123'', Type = ''bridge'', Delete = None\<rparr>,
     [CallNetworkByName ''abc'', CallWalkNetworks])"
  by (simp add: FindNetwork_def GetNetworkByName_def GetNetworkByID_def GetNetworksByID_def
      exampleDaemon_def exampleController_def lookupByName_def exampleNetworks_def isNoSuchNetworkError_def)

text \<open>
  C6. A request to create a network with a pre-defined name, outside agent mode (as
  \<open>CreateNetwork\<close> runs it), is answered with the forbidden-request error and no call
  is made on the controller; deleting, outside dynamic mode (as \<open>DeleteNetwork\<close> runs
  it), a network whose name is pre-defined is answered with the forbidden-request
  error and \<open>Delete\<close> is called on no network.
\<close>

theorem predefined_networks_protected:
  "(IsPreDefinedNetwork (reqName create)
      \<longrightarrow> createNetwork IsPreDefinedNetwork ParseCIDR daemon create ident False =
            (Inl (RequestForbiddenError
                    (reqName create @ '' is a pre-defined network and cannot be created'')), [])
          \<and> CreateNetwork IsPreDefinedNetwork ParseCIDR daemon create =
            (Inl (RequestForbiddenError
                    (reqName create @ '' is a pre-defined network and cannot be created'')), []))
   \<and> (fst (FindNetwork daemon networkID) = Inr nw \<and> IsPreDefinedNetwork (Name nw)
      \<longrightarrow> deleteNetwork IsPreDefinedNetwork daemon networkID False =
            (Some (RequestForbiddenError
                     (Name nw @ '' is a pre-defined network and cannot be removed'')),
             snd (FindNetwork daemon networkID))
          \<and> DeleteNetwork IsPreDefinedNetwork daemon networkID =
            (Some (RequestForbiddenError
                     (Name nw @ '' is a pre-defined network and cannot be removed'')),
             snd (FindNetwork daemon networkID))
          \<and> CallDelete nw' \<notin> set (snd (deleteNetwork IsPreDefinedNetwork daemon networkID False)))"
proof -
  have nodel: "CallDelete nw' \<notin> set (snd (FindNetwork daemon networkID))"
    using FindNetwork_trace [of daemon networkID] by auto
  have a: "IsPreDefinedNetwork (reqName create)
      \<longrightarrow> createNetwork IsPreDefinedNetwork ParseCIDR daemon create ident False =
            (Inl (RequestForbiddenError
                    (reqName create @ '' is a pre-defined network and cannot be created'')), [])
          \<and> CreateNetwork IsPreDefinedNetwork ParseCIDR daemon create =
            (Inl (RequestForbiddenError
                    (reqName create @ '' is a pre-defined network and cannot be created'')), [])"
    by (simp add: createNetwork_def CreateNetwork_def)
  have b: "fst (FindNetwork daemon networkID) = Inr nw \<and> IsPreDefinedNetwork (Name nw)
      \<longrightarrow> deleteNetwork IsPreDefinedNetwork daemon networkID False =
            (Some (RequestForbiddenError
                     (Name nw @ '' is a pre-defined network and cannot be removed'')),
             snd (FindNetwork daemon networkID))"
    by (auto simp: deleteNetwork_def split: prod.splits sum.splits)
  have c: "DeleteNetwork IsPreDefinedNetwork daemon networkID =
             deleteNetwork IsPreDefinedNetwork daemon networkID False"
    by (simp add: DeleteNetwork_def)
  from a b nodel show ?thesis unfolding c by auto
qed

theorem predefined_networks_protected_witness:
  "examplePreDefined (reqName (exampleRequest ''host'' False))
   \<and> CreateNetwork examplePreDefined exampleParseCIDR exampleDaemon (exampleRequest ''host'' False) =
       (Inl (RequestForbiddenError ''host is a pre-defined network and cannot be created''), [])
   \<and> fst (FindNetwork exampleDaemon ''abc'') =
       Inr \<lparr>Name = ''bridge'', ID = ''abc123'', Type = ''bridge'', Delete = None\<rparr>
   \<and> examplePreDefined (Name \<lparr>Name = ''bridge'', ID = ''abc123'', Type = ''bridge'', Delete = None\<rparr>)
   \<and> deleteNetwork examplePreDefined exampleDaemon ''abc'' False =
       (Some (RequestForbiddenError ''bridge is a pre-defined network and cannot be removed''),
        [CallNetworkByName ''abc'', CallWalkNetworks])"
proof -
  have h1: "examplePreDefined (reqName (exampleRequest ''host'' False))"
    by (simp add: examplePreDefined_def exampleRequest_def)
  have h2: "examplePreDefined (Name \<lparr>Name = ''bridge'', ID = ''abc123'', Type = ''bridge'', Delete = None\<rparr>)"
    by (simp add: examplePreDefined_def)
  from predefined_networks_protected
         [of examplePreDefined "exampleRequest ''host'' False" exampleParseCIDR exampleDaemon
             "[]" "''abc''" "\<lparr>Name = ''bridge'', ID = ''abc123'', Type = ''bridge'', Delete = None\<rparr>"]
  show ?thesis using h1 h2 by (simp add: ex_find_abc exampleRequest_def)
qed











section \<open>Properties of the stack networks\<close>

lemma dom_add_networks:
  "dom (foldl (\<lambda>set network. set(network \<mapsto> True)) m ns) = dom m \<union> set ns"
  by (induction ns arbitrary: m) auto

lemma dom_add_services:
  "dom (foldl (\<lambda>set service. foldl (\<lambda>set network. set(network \<mapsto> True)) set (Networks (snd service)))
          m services)
     = dom m \<union> (\<Union>service \<in> set services. set (Networks (snd service)))"
  by (induction services arbitrary: m) (auto simp: dom_add_networks)

lemma dom_networkSet:
  "dom (networkSet services) = (\<Union>service \<in> set services. set (Networks (snd service)))"
  by (simp add: networkSet_def dom_add_services)

lemma foldl_append_each: "foldl (\<lambda>networks network. networks @ [network]) acc xs = acc @ xs"
  by (induction xs arbitrary: acc) simp_all

lemma count_list_distinct:
  "distinct xs \<Longrightarrow> count_list xs x = (if x \<in> set xs then 1 else 0)"
  by (induction xs) auto

lemma ex_rangeKeys: "exampleRangeKeys (networkSet exampleServices) = [''back'', ''front'']"
  by (auto simp add: exampleRangeKeys_def networkSet_def exampleServices_def)

lemma ex_dom: "dom (networkSet exampleServices) = {''back'', ''front''}"
  by (auto simp add: dom_networkSet exampleServices_def)

text \<open>
  C9. Where the iteration over \<open>networkSet\<close> visits each of its keys exactly once (as
  a Go \<open>range\<close> does), a name is in the result of \<open>getUniqueNetworkNames\<close> if and
  only if some service of the bundle lists it in its \<open>Networks\<close>, and it occurs there
  exactly once.
\<close>

theorem getUniqueNetworkNames_exact:
  assumes "distinct (rangeKeys (networkSet services))"
    and "set (rangeKeys (networkSet services)) = dom (networkSet services)"
  shows "(name \<in> set (getUniqueNetworkNames rangeKeys services)
            \<longleftrightarrow> (\<exists>service \<in> set services. name \<in> set (Networks (snd service))))
       \<and> distinct (getUniqueNetworkNames rangeKeys services)
       \<and> count_list (getUniqueNetworkNames rangeKeys services) name =
           (if \<exists>service \<in> set services. name \<in> set (Networks (snd service)) then 1 else 0)"
proof -
  have eq: "getUniqueNetworkNames rangeKeys services = rangeKeys (networkSet services)"
    by (simp add: getUniqueNetworkNames_def foldl_append_each)
  have s: "set (getUniqueNetworkNames rangeKeys services)
          = (\<Union>service \<in> set services. set (Networks (snd service)))"
    using assms(2) by (simp add: eq dom_networkSet)
  have d: "distinct (getUniqueNetworkNames rangeKeys services)"
    using assms(1) by (simp add: eq)
  from s have m: "name \<in> set (getUniqueNetworkNames rangeKeys services)
            \<longleftrightarrow> (\<exists>service \<in> set services. name \<in> set (Networks (snd service)))"
    by auto
  from d m show ?thesis by (simp add: count_list_distinct)
qed

theorem getUniqueNetworkNames_exact_witness:
  "distinct (exampleRangeKeys (networkSet exampleServices))
   \<and> set (exampleRangeKeys (networkSet exampleServices)) = dom (networkSet exampleServices)
   \<and> getUniqueNetworkNames exampleRangeKeys exampleServices = [''back'', ''front'']
   \<and> count_list (getUniqueNetworkNames exampleRangeKeys exampleServices) ''back'' = 1
   \<and> count_list (getUniqueNetworkNames exampleRangeKeys exampleServices) ''other'' = 0"
proof -
  have h1: "distinct (exampleRangeKeys (networkSet exampleServices))"
    by (simp add: ex_rangeKeys)
  have h2: "set (exampleRangeKeys (networkSet exampleServices)) = dom (networkSet exampleServices)"
    by (auto simp add: ex_rangeKeys ex_dom)
  have v: "getUniqueNetworkNames exampleRangeKeys exampleServices = [''back'', ''front'']"
    by (simp add: getUniqueNetworkNames_def ex_rangeKeys)
  from getUniqueNetworkNames_exact
         [where rangeKeys = exampleRangeKeys and services = exampleServices and name = "''back''",
          OF h1 h2]
       getUniqueNetworkNames_exact
         [where rangeKeys = exampleRangeKeys and services = exampleServices and name = "''other''",
          OF h1 h2]
  have "count_list (getUniqueNetworkNames exampleRangeKeys exampleServices) ''back'' = 1
      \<and> count_list (getUniqueNetworkNames exampleRangeKeys exampleServices) ''other'' = 0"
    by (simp add: exampleServices_def)
  with h1 h2 v show ?thesis by blast
qed

lemma createdNames_append:
  "createdNames (evs @ evs') = createdNames evs @ createdNames evs'"
  by (induction evs rule: createdNames.induct) simp_all

lemma existingNetworkMap_dom:
  "dom (foldl (\<lambda>m network. m(resName network \<mapsto> network)) m0 existing)
     = dom m0 \<union> resName ` set existing"
  by (induction existing arbitrary: m0) auto

lemma loop_skip:
  "m (stackNetworkName namespace n) \<noteq> None \<Longrightarrow>
   updateNetworks_loop cl namespace m opts (n # networks) = updateNetworks_loop cl namespace m opts networks"
  by (simp add: Let_def)

lemma loop_fail:
  "m (stackNetworkName namespace n) = None \<Longrightarrow>
   NetworkCreate cl (stackNetworkName namespace n) opts = Inl err \<Longrightarrow>
   updateNetworks_loop cl namespace m opts (n # networks) =
     (Some err, [Out (''Creating network '' @ stackNetworkName namespace n @ [CHR 0x0A]),
                 ApiNetworkCreate (stackNetworkName namespace n) opts])"
  by (simp add: Let_def)

lemma loop_ok:
  "m (stackNetworkName namespace n) = None \<Longrightarrow>
   NetworkCreate cl (stackNetworkName namespace n) opts = Inr resp \<Longrightarrow>
   updateNetworks_loop cl namespace m opts (n # networks) =
     (fst (updateNetworks_loop cl namespace m opts networks),
      Out (''Creating network '' @ stackNetworkName namespace n @ [CHR 0x0A])
      # ApiNetworkCreate (stackNetworkName namespace n) opts
      # snd (updateNetworks_loop cl namespace m opts networks))"
  by (simp add: Let_def split: prod.splits)

lemma updateNetworks_loop_created:
  "createdNames (snd (updateNetworks_loop cl namespace m opts networks)) =
     takeWhile (\<lambda>name. \<not> isl (NetworkCreate cl name opts))
       (filter (\<lambda>name. m name = None) (map (stackNetworkName namespace) networks))
     @ take 1 (dropWhile (\<lambda>name. \<not> isl (NetworkCreate cl name opts))
       (filter (\<lambda>name. m name = None) (map (stackNetworkName namespace) networks)))"
proof (induction networks)
  case Nil
  show ?case by simp
next
  case (Cons n networks)
  show ?case
  proof (cases "m (stackNetworkName namespace n) = None")
    case False
    then show ?thesis using Cons.IH
      unfolding loop_skip [where m = m and namespace = namespace and n = n, OF False] by auto
  next
    case True
    show ?thesis
    proof (cases "NetworkCreate cl (stackNetworkName namespace n) opts")
      case (Inl err)
      show ?thesis unfolding loop_fail [where m = m and namespace = namespace and n = n, OF True Inl] by (simp add: True Inl)
    next
      case (Inr resp)
      show ?thesis using Cons.IH unfolding loop_ok [where m = m and namespace = namespace and n = n, OF True Inr] by (simp add: True Inr)
    qed
  qed
qed

lemma updateNetworks_loop_ok:
  "fst (updateNetworks_loop cl namespace m opts networks) = None \<Longrightarrow>
   createdNames (snd (updateNetworks_loop cl namespace m opts networks)) =
     filter (\<lambda>name. m name = None) (map (stackNetworkName namespace) networks)"
proof (induction networks)
  case Nil
  show ?case by simp
next
  case (Cons n networks)
  show ?case
  proof (cases "m (stackNetworkName namespace n) = None")
    case False
    then show ?thesis using Cons
      unfolding loop_skip [where m = m and namespace = namespace and n = n, OF False] by auto
  next
    case True
    show ?thesis
    proof (cases "NetworkCreate cl (stackNetworkName namespace n) opts")
      case (Inl err)
      from Cons.prems show ?thesis unfolding loop_fail [where m = m and namespace = namespace and n = n, OF True Inl] by simp
    next
      case (Inr resp)
      from Cons show ?thesis unfolding loop_ok [where m = m and namespace = namespace and n = n, OF True Inr] by (simp add: True)
    qed
  qed
qed

lemma set_upto_first_failure:
  "set (takeWhile P xs @ take k (dropWhile P xs)) \<subseteq> set xs"
proof
  fix x
  assume "x \<in> set (takeWhile P xs @ take k (dropWhile P xs))"
  then have "x \<in> set (takeWhile P xs) \<or> x \<in> set (take k (dropWhile P xs))"
    by simp
  then show "x \<in> set xs"
  proof
    assume "x \<in> set (takeWhile P xs)"
    then show ?thesis by (rule set_takeWhileD [THEN conjunct1])
  next
    assume "x \<in> set (take k (dropWhile P xs))"
    then have "x \<in> set (dropWhile P xs)" by (rule in_set_takeD)
    then show ?thesis by (rule set_dropWhileD)
  qed
qed

lemma updateNetworks_loop_absent:
  assumes "name \<in> set (createdNames (snd (updateNetworks_loop cl namespace m opts networks)))"
  shows "m name = None"
proof -
  let ?ok = "\<lambda>name. \<not> isl (NetworkCreate cl name opts)"
  let ?wanted = "filter (\<lambda>name. m name = None) (map (stackNetworkName namespace) networks)"
  from assms have "name \<in> set (takeWhile ?ok ?wanted @ take 1 (dropWhile ?ok ?wanted))"
    by (simp only: updateNetworks_loop_created)
  then have "name \<in> set ?wanted"
    by (rule subsetD [OF set_upto_first_failure])
  then show ?thesis by simp
qed

lemma existingNetworkMap_None:
  "(foldl (\<lambda>m network. m(resName network \<mapsto> network)) Map.empty existing name = None)
     \<longleftrightarrow> name \<notin> resName ` set existing"
proof -
  let ?m = "foldl (\<lambda>m network. m(resName network \<mapsto> network)) Map.empty existing"
  have d: "dom ?m = resName ` set existing"
    using existingNetworkMap_dom [of Map.empty existing] by simp
  have "(?m name = None) = (name \<notin> dom ?m)"
    by (simp only: domIff simp_thms)
  also have "\<dots> = (name \<notin> resName ` set existing)"
    by (simp only: d)
  finally show ?thesis .
qed

lemma updateNetworks_created:
  assumes "fst (getNetworks cl namespace) = Inr existing"
  shows "createdNames (snd (updateNetworks cl networks namespace)) =
           createdNames (snd (updateNetworks_loop cl namespace
              (foldl (\<lambda>m network. m(resName network \<mapsto> network)) Map.empty existing)
              (stackCreateOpts namespace) networks))
       \<and> fst (updateNetworks cl networks namespace) =
           fst (updateNetworks_loop cl namespace
              (foldl (\<lambda>m network. m(resName network \<mapsto> network)) Map.empty existing)
              (stackCreateOpts namespace) networks)"
proof -
  let ?m = "foldl (\<lambda>m network. m(resName network \<mapsto> network)) Map.empty existing"
  obtain evs where g: "getNetworks cl namespace = (Inr existing, evs)"
    using assms by (cases "getNetworks cl namespace") simp
  have ev: "createdNames evs = []"
    using g by (auto simp: getNetworks_def)
  obtain r evs' where l: "updateNetworks_loop cl namespace ?m (stackCreateOpts namespace) networks = (r, evs')"
    by (cases "updateNetworks_loop cl namespace ?m (stackCreateOpts namespace) networks")
  have "updateNetworks cl networks namespace = (r, evs @ evs')"
    by (simp add: updateNetworks_def g l Let_def)
  then show ?thesis by (simp add: l createdNames_append ev)
qed

lemma ex_updateNetworks:
  "updateNetworks exampleClient [''back'', ''front''] ''shop'' =
       (None,
        [ApiNetworkList \<lparr>Filters = [(''label'', ''com.docker.stack.namespace=shop'')]\<rparr>,
         Out (''Creating network shop_front'' @ [CHR 0x0A]),
         ApiNetworkCreate ''shop_front'' (stackCreateOpts ''shop'')])"
  by (simp add: getNetworks_def updateNetworks_def exampleClient_def stackNetworkName_def Let_def
        getStackFilter_def labelNamespace_def)

text \<open>
  C2, as stated, fails where a call of \<open>NetworkCreate\<close> fails: \<open>updateNetworks\<close>
  returns that error at once, and a referenced network whose name is absent from the
  listing and that comes later is not created.
\<close>

theorem updateNetworks_stops_at_failure_counterexample:
  "fst (getNetworks failingClient ''shop'') = Inr []
   \<and> ''back'' \<in> set [''front'', ''back'']
   \<and> stackNetworkName ''shop'' ''back'' \<notin> resName ` set []
   \<and> createdNames (snd (updateNetworks failingClient [''front'', ''back''] ''shop'')) = [''shop_front'']
   \<and> stackNetworkName ''shop'' ''back''
        \<notin> set (createdNames (snd (updateNetworks failingClient [''front'', ''back''] ''shop'')))"
  by (simp add: getNetworks_def updateNetworks_def failingClient_def stackNetworkName_def Let_def)

text \<open>
  C2, amended. After a successful listing of the networks of the stack,
  \<open>updateNetworks\<close> calls \<open>NetworkCreate\<close>, in the order of the referenced names, for
  the namespaced names that are absent from the listing, up to and including the
  first call that fails; when it returns no error these are all the absent names; and
  it never calls \<open>NetworkCreate\<close> for a name that the listing contains.
\<close>

theorem updateNetworks_creates_absent:
  assumes "fst (getNetworks cl namespace) = Inr existing"
  shows "(let wanted = filter (\<lambda>name. name \<notin> resName ` set existing)
                          (map (stackNetworkName namespace) networks);
              created = createdNames (snd (updateNetworks cl networks namespace))
          in created = takeWhile (createSucceeds cl namespace) wanted
                         @ take 1 (dropWhile (createSucceeds cl namespace) wanted)
             \<and> (fst (updateNetworks cl networks namespace) = None \<longrightarrow> created = wanted)
             \<and> (\<forall>name \<in> set created. name \<notin> resName ` set existing))"
proof -
  let ?m = "foldl (\<lambda>m network. m(resName network \<mapsto> network)) Map.empty existing"
  let ?wanted = "filter (\<lambda>name. name \<notin> resName ` set existing)
                   (map (stackNetworkName namespace) networks)"
  let ?created = "createdNames (snd (updateNetworks cl networks namespace))"
  let ?loop = "updateNetworks_loop cl namespace ?m (stackCreateOpts namespace) networks"
  let ?ok = "\<lambda>name. \<not> isl (NetworkCreate cl name (stackCreateOpts namespace))"
  have wrap1: "?created = createdNames (snd ?loop)"
    by (rule updateNetworks_created [OF assms, THEN conjunct1])
  have wrap2: "fst (updateNetworks cl networks namespace) = fst ?loop"
    by (rule updateNetworks_created [OF assms, THEN conjunct2])
  have w: "filter (\<lambda>name. ?m name = None) (map (stackNetworkName namespace) networks) = ?wanted"
    by (rule filter_cong [OF refl]) (rule existingNetworkMap_None)
  have ok: "?ok = createSucceeds cl namespace"
    by (rule ext) (simp only: createSucceeds_def)
  have "createdNames (snd ?loop) =
          takeWhile ?ok (filter (\<lambda>name. ?m name = None) (map (stackNetworkName namespace) networks))
          @ take 1 (dropWhile ?ok
              (filter (\<lambda>name. ?m name = None) (map (stackNetworkName namespace) networks)))"
    by (rule updateNetworks_loop_created)
  then have "createdNames (snd ?loop) = takeWhile ?ok ?wanted @ take 1 (dropWhile ?ok ?wanted)"
    by (simp only: w)
  then have a: "?created = takeWhile (createSucceeds cl namespace) ?wanted
                         @ take 1 (dropWhile (createSucceeds cl namespace) ?wanted)"
    by (simp only: wrap1 ok)
  have b: "fst (updateNetworks cl networks namespace) = None \<longrightarrow> ?created = ?wanted"
  proof
    assume "fst (updateNetworks cl networks namespace) = None"
    then have "fst ?loop = None" by (simp only: wrap2)
    then have "createdNames (snd ?loop) =
        filter (\<lambda>name. ?m name = None) (map (stackNetworkName namespace) networks)"
      by (rule updateNetworks_loop_ok)
    then show "?created = ?wanted" by (simp only: wrap1 w)
  qed
  have c: "\<forall>name \<in> set ?created. name \<notin> resName ` set existing"
  proof
    fix name assume "name \<in> set ?created"
    then have "name \<in> set (createdNames (snd ?loop))" by (simp only: wrap1)
    then have "?m name = None" by (rule updateNetworks_loop_absent)
    then show "name \<notin> resName ` set existing"
      by (rule existingNetworkMap_None [THEN iffD1])
  qed
  show ?thesis unfolding Let_def
    by (intro conjI) (rule a, rule b, rule c)
qed

theorem updateNetworks_creates_absent_witness:
  "fst (getNetworks exampleClient ''shop'') = Inr [\<lparr>resName = ''shop_back'', resID = ''77aa''\<rparr>]
   \<and> fst (updateNetworks exampleClient [''back'', ''front''] ''shop'') = None
   \<and> createdNames (snd (updateNetworks exampleClient [''back'', ''front''] ''shop'')) = [''shop_front'']"
proof -
  have h: "fst (getNetworks exampleClient ''shop'') = Inr [\<lparr>resName = ''shop_back'', resID = ''77aa''\<rparr>]"
    by (simp add: getNetworks_def exampleClient_def)
  have n: "fst (updateNetworks exampleClient [''back'', ''front''] ''shop'') = None"
    by (simp add: ex_updateNetworks)
  from updateNetworks_creates_absent [OF h, of "[''back'', ''front'']"] n
  have "createdNames (snd (updateNetworks exampleClient [''back'', ''front''] ''shop'')) = [''shop_front'']"
    by (simp add: Let_def stackNetworkName_def)
  with h n show ?thesis by blast
qed

end
